theory Spec2Isabelle
  imports Complex_Main "HOL-Library.AList"
begin

section \<open>Numbers and rounding (girdbot/utils/helpers.py)\<close>

text \<open>
  The exceptions the modelled code can raise or catch. The last three are the signals
  the default decimal context traps.
\<close>

datatype exn =
    ExchangeError | KeyError | TypeError | DivisionByZero | InvalidOperation | Overflow

text \<open>
  Prices and amounts are finite Python \<^verbatim>\<open>Decimal\<close> values. A value is modelled by the
  rational number it denotes; \<^verbatim>\<open>==\<close>, \<^verbatim>\<open><\<close> and \<^verbatim>\<open><=\<close> of two decimals compare
  these numbers. The program never changes the decimal context, so every operation
  runs in the default one: 28 significant digits, \<^verbatim>\<open>ROUND_HALF_EVEN\<close>, exponents from
  \<open>-999999\<close> to \<open>999999\<close>.
\<close>

type_synonym decimal = rat

datatype rounding = ROUND_DOWN | ROUND_UP

definition prec :: nat where "prec = 28"

definition Emax :: int where "Emax = 999999"

definition Emin :: int where "Emin = - 999999"

definition Etiny :: int where "Etiny = Emin - int prec + 1"

text \<open>The number of decimal digits of a positive integer.\<close>

function ndigits :: "int \<Rightarrow> nat" where
  "ndigits n = (if n < 10 then 1 else Suc (ndigits (n div 10)))"
  by pat_completeness auto
termination by (relation "measure nat") auto

declare ndigits.simps [simp del]

text \<open>
  \<^verbatim>\<open>Decimal.adjusted()\<close>: the exponent of the leading digit of a non-zero number, that
  is the \<open>a\<close> with \<open>10\<^sup>a \<le> |x| < 10\<^sup>a\<^sup>+\<^sup>1\<close>.
\<close>

definition adjusted :: "decimal \<Rightarrow> int" where
  "adjusted x =
     (case quotient_of \<bar>x\<bar> of (n, d) \<Rightarrow>
        let k = int (ndigits n) - int (ndigits d)
        in if 10 powi k \<le> \<bar>x\<bar> then k else k - 1)"

definition round_half_even :: "rat \<Rightarrow> int" where
  "round_half_even x =
     (let f = \<lfloor>x\<rfloor>; r = x - of_int f
      in if r < 1 / 2 then f else if 1 / 2 < r then f + 1 else if even f then f else f + 1)"

text \<open>
  The rounding the context applies to the exact result \<open>x\<close> of an operation: to 28
  significant digits, or to the exponent \<open>Etiny\<close> when \<open>x\<close> is subnormal; a rounded
  result above the largest exponent raises \<^verbatim>\<open>Overflow\<close>.
\<close>

definition dec_fix :: "rat \<Rightarrow> exn + decimal" where
  "dec_fix x =
     (if x = 0 then Inr 0
      else
        let exp_min = max (adjusted x - int prec + 1) Etiny;
            y = of_int (round_half_even (x / 10 powi exp_min)) * 10 powi exp_min
        in if y \<noteq> 0 \<and> Emax < adjusted y then Inl Overflow else Inr y)"

text \<open>The operators \<^verbatim>\<open>+\<close>, \<^verbatim>\<open>-\<close>, \<^verbatim>\<open>*\<close> and \<^verbatim>\<open>/\<close> of two decimals.\<close>

definition dec_add :: "decimal \<Rightarrow> decimal \<Rightarrow> exn + decimal" where
  "dec_add a b = dec_fix (a + b)"

definition dec_sub :: "decimal \<Rightarrow> decimal \<Rightarrow> exn + decimal" where
  "dec_sub a b = dec_fix (a - b)"

definition dec_mul :: "decimal \<Rightarrow> decimal \<Rightarrow> exn + decimal" where
  "dec_mul a b = dec_fix (a * b)"

definition dec_div :: "decimal \<Rightarrow> decimal \<Rightarrow> exn + decimal" where
  "dec_div a b =
     (if b = 0 then Inl (if a = 0 then InvalidOperation else DivisionByZero)
      else dec_fix (a / b))"

text \<open>Sequencing of two steps of which the first may raise.\<close>

fun and_then :: "exn + 'a \<Rightarrow> ('a \<Rightarrow> exn + 'b) \<Rightarrow> exn + 'b" where
  "and_then (Inl e) f = Inl e"
| "and_then (Inr x) f = f x"

text \<open>
  \<^verbatim>\<open>x.quantize(Decimal('1'), rounding=r)\<close>: the integer next to \<open>x\<close>, towards zero for
  \<^verbatim>\<open>ROUND_DOWN\<close> and away from zero for \<^verbatim>\<open>ROUND_UP\<close>. The call raises
  \<^verbatim>\<open>InvalidOperation\<close> when \<open>x\<close> or the integer needs more than 28 digits.
\<close>

fun rescale_0 :: "rounding \<Rightarrow> decimal \<Rightarrow> int" where
  "rescale_0 ROUND_DOWN x = (if 0 \<le> x then \<lfloor>x\<rfloor> else \<lceil>x\<rceil>)"
| "rescale_0 ROUND_UP x = (if 0 \<le> x then \<lceil>x\<rceil> else \<lfloor>x\<rfloor>)"

definition quantize_1 :: "rounding \<Rightarrow> decimal \<Rightarrow> exn + decimal" where
  "quantize_1 r x =
     (let y = of_int (rescale_0 r x)
      in if 10 ^ prec \<le> \<bar>x\<bar> \<or> 10 ^ prec \<le> \<bar>y\<bar> then Inl InvalidOperation else Inr y)"

definition round_to_precision :: "decimal \<Rightarrow> decimal \<Rightarrow> rounding \<Rightarrow> exn + decimal" where
  "round_to_precision v precision r =
     (if precision = 0 then Inr v
      else and_then (dec_div v precision) (\<lambda>q.
           and_then (quantize_1 r q) (\<lambda>t. dec_mul t precision)))"

text \<open>
  A number the context leaves as it is: zero, or a number of at most 28 significant
  digits, with no digit below the exponent \<open>Etiny\<close> and the leading one not above
  \<open>Emax\<close>.
\<close>

definition representable :: "rat \<Rightarrow> bool" where
  "representable x =
     (x = 0 \<or>
      (adjusted x \<le> Emax \<and>
       (let y = x / 10 powi (max (adjusted x - int prec + 1) Etiny)
        in of_int \<lfloor>y\<rfloor> = y)))"

section \<open>Order tracking (girdbot/core/order_manager.py)\<close>

text \<open>
  An order is the dictionary that \<^verbatim>\<open>place_buy_order\<close> and \<^verbatim>\<open>place_sell_order\<close> store, with
  the two keys the fill and cancel handlers add later. A Python dictionary is an
  association list in insertion order; \<^const>\<open>AList.update\<close> overwrites the value of a
  present key in place and appends an absent one, as \<^verbatim>\<open>d[k] = v\<close> does.
\<close>

type_synonym timestamp = rat

record order =
  o_level_id :: string
  o_price :: decimal
  o_amount :: decimal
  o_side :: string
  o_status :: string
  o_timestamp :: timestamp
  o_filled_time :: "timestamp option"
  o_cancel_time :: "timestamp option"

record order_manager =
  orders :: "(string \<times> order) list"

definition has_key :: "('k \<times> 'v) list \<Rightarrow> 'k \<Rightarrow> bool" where
  "has_key d k = (map_of d k \<noteq> None)"

definition add_order :: "order_manager \<Rightarrow> string \<Rightarrow> order \<Rightarrow> bool \<times> order_manager" where
  "add_order om order_id order_data =
     (if has_key (orders om) order_id then (False, om)
      else (True, om\<lparr>orders := AList.update order_id order_data (orders om)\<rparr>))"

definition update_order :: "order_manager \<Rightarrow> string \<Rightarrow> order \<Rightarrow> bool \<times> order_manager" where
  "update_order om order_id order_data =
     (if \<not> has_key (orders om) order_id then (False, om)
      else (True, om\<lparr>orders := AList.update order_id order_data (orders om)\<rparr>))"

definition get_order :: "order_manager \<Rightarrow> string \<Rightarrow> order option" where
  "get_order om order_id = map_of (orders om) order_id"

definition delete_order :: "order_manager \<Rightarrow> string \<Rightarrow> bool \<times> order_manager" where
  "delete_order om order_id =
     (if \<not> has_key (orders om) order_id then (False, om)
      else (True, om\<lparr>orders := AList.delete order_id (orders om)\<rparr>))"

definition is_active :: "order \<Rightarrow> bool" where
  "is_active order_data = (o_status order_data \<in> set [''open'', ''partially_filled''])"

definition count_active_orders :: "order_manager \<Rightarrow> nat" where
  "count_active_orders om = length (filter is_active (map snd (orders om)))"

section \<open>Venues\<close>

text \<open>
  A venue is reached only through calls that may raise. The outside world is a value
  of an arbitrary type \<open>'w\<close>; every call takes the world and returns it changed, so
  that a venue may answer the same request differently each time.
  \<^verbatim>\<open>load_market\<close> and \<^verbatim>\<open>fetch_market_info\<close> return the market dictionary, of which the
  code reads \<^verbatim>\<open>precision.price\<close> and \<^verbatim>\<open>precision.amount\<close>; \<^verbatim>\<open>fetch_order\<close> returns the
  order dictionary, of which the code reads \<^verbatim>\<open>status\<close>; \<^verbatim>\<open>uuid4\<close> stands for
  \<^verbatim>\<open>uuid.uuid4().hex[:8]\<close>.
\<close>

record exchange =
  ex_id :: string
  ex_name :: string

datatype 'a outcome = Raised | Returned 'a

datatype number = PyInt int | PyFloat decimal

record market =
  precision_price :: "number option"
  precision_amount :: "number option"

record 'w venue_api =
  load_market :: "'w \<Rightarrow> exchange \<Rightarrow> string \<Rightarrow> market outcome \<times> 'w"
  fetch_market_info :: "'w \<Rightarrow> exchange \<Rightarrow> string \<Rightarrow> market outcome \<times> 'w"
  create_limit_order ::
    "'w \<Rightarrow> exchange \<Rightarrow> string \<Rightarrow> string \<Rightarrow> decimal \<Rightarrow> decimal \<Rightarrow> string outcome \<times> 'w"
  cancel_order :: "'w \<Rightarrow> exchange \<Rightarrow> string \<Rightarrow> string \<Rightarrow> bool outcome \<times> 'w"
  fetch_order :: "'w \<Rightarrow> exchange \<Rightarrow> string \<Rightarrow> string \<Rightarrow> string outcome \<times> 'w"
  uuid4 :: "'w \<Rightarrow> string \<times> 'w"

text \<open>Truth value of an optional string: \<^verbatim>\<open>None\<close> and the empty string are false.\<close>

fun truthy :: "string option \<Rightarrow> bool" where
  "truthy None = False"
| "truthy (Some x) = (x \<noteq> [])"

text \<open>\<^verbatim>\<open>Decimal(str(x))\<close> of a number read from a venue.\<close>

fun to_decimal :: "number \<Rightarrow> decimal" where
  "to_decimal (PyInt n) = of_int n"
| "to_decimal (PyFloat x) = x"

section \<open>Exchange manager (girdbot/exchange/exchange_manager.py)\<close>

record exchange_config =
  cfg_name :: string
  cfg_is_hedge :: bool
  cfg_account_alias :: "string option"

record exchange_manager =
  exchanges :: "(string \<times> exchange) list"
  exchange_configs :: "exchange_config list"

definition get_exchange_by_name :: "exchange_manager \<Rightarrow> string \<Rightarrow> exchange option" where
  "get_exchange_by_name em exchange_name =
     find (\<lambda>e. ex_name e = exchange_name) (map snd (exchanges em))"

fun get_hedge_exchanges_loop :: "exchange_manager \<Rightarrow> exchange_config list \<Rightarrow> exchange list" where
  "get_hedge_exchanges_loop em [] = []"
| "get_hedge_exchanges_loop em (config # rest) =
     (if cfg_is_hedge config \<and> truthy (cfg_account_alias config) then
        (case map_of (exchanges em)
                (cfg_name config @ ''_'' @ the (cfg_account_alias config)) of
           Some e \<Rightarrow> e # get_hedge_exchanges_loop em rest
         | None \<Rightarrow> get_hedge_exchanges_loop em rest)
      else get_hedge_exchanges_loop em rest)"

definition get_hedge_exchanges :: "exchange_manager \<Rightarrow> exchange list" where
  "get_hedge_exchanges em = get_hedge_exchanges_loop em (exchange_configs em)"

section \<open>Hedge manager (girdbot/core/hedge_manager.py)\<close>

record hedge_config =
  hc_trading_pair :: string
  hc_exchanges :: "exchange list"
  hc_price_precision :: decimal
  hc_amount_precision :: decimal
  hc_initialized :: bool
  hc_last_update :: timestamp

record hedge_member =
  m_exchange_name :: string
  m_exchange_id :: string
  m_status :: string
  m_timestamp :: timestamp
  m_filled_time :: "timestamp option"
  m_cancel_time :: "timestamp option"

record hedge_group =
  g_strategy_id :: string
  g_level_id :: string
  g_side :: string
  g_amount :: decimal
  g_price :: decimal
  g_status :: string
  g_orders :: "(string \<times> hedge_member) list"

record hedge_manager =
  hm_exchange_manager :: exchange_manager
  hedge_strategies :: "(string \<times> hedge_config) list"
  hedge_orders :: "(string \<times> hedge_group) list"
  reverse_lookup :: "(string \<times> string) list"

definition new_hedge_manager :: "exchange_manager \<Rightarrow> hedge_manager" where
  "new_hedge_manager em =
     \<lparr>hm_exchange_manager = em, hedge_strategies = [], hedge_orders = [], reverse_lookup = []\<rparr>"

definition initialize_for_strategy ::
  "string \<Rightarrow> string \<Rightarrow> timestamp \<Rightarrow> hedge_manager \<Rightarrow> bool \<times> hedge_manager" where
  "initialize_for_strategy strategy_id trading_pair now hm =
     (let hedge_exchanges = get_hedge_exchanges (hm_exchange_manager hm) in
      if hedge_exchanges = [] then (False, hm)
      else (True, hm\<lparr>hedge_strategies :=
              AList.update strategy_id
                \<lparr>hc_trading_pair = trading_pair, hc_exchanges = hedge_exchanges,
                 hc_price_precision = 1 / 100000000, hc_amount_precision = 1 / 100000000,
                 hc_initialized = True, hc_last_update = now\<rparr>
                (hedge_strategies hm)\<rparr>))"

text \<open>
  \<^verbatim>\<open>Decimal(f"0.{'0' * (d - 1)}1")\<close> where \<open>d\<close> is \<^verbatim>\<open>precision.get(key, 8)\<close>: a string
  repeated a non-positive number of times is empty, and a string cannot be repeated a
  float number of times (\<^verbatim>\<open>TypeError\<close>).
\<close>

fun digits_precision :: "number option \<Rightarrow> exn + decimal" where
  "digits_precision None = Inr (1 / 10 ^ 8)"
| "digits_precision (Some (PyInt d)) = Inr (1 / 10 ^ (nat (d - 1) + 1))"
| "digits_precision (Some (PyFloat x)) = Inl TypeError"

definition update_precision_if_needed ::
  "'w venue_api \<Rightarrow> string \<Rightarrow> exchange \<Rightarrow> string \<Rightarrow> hedge_manager \<times> 'w
     \<Rightarrow> (exn + unit) \<times> hedge_manager \<times> 'w" where
  "update_precision_if_needed api strategy_id exchange trading_pair st =
     (case st of (hm, w) \<Rightarrow>
      case map_of (hedge_strategies hm) strategy_id of
        None \<Rightarrow> (Inl KeyError, hm, w)
      | Some hedge_config \<Rightarrow>
         (case fetch_market_info api w exchange trading_pair of
            (Raised, w') \<Rightarrow> (Inr (), hm, w')
          | (Returned market_info, w') \<Rightarrow>
             (case digits_precision (precision_price market_info) of
                Inl e \<Rightarrow> (Inr (), hm, w')
              | Inr price_precision \<Rightarrow>
                 (case digits_precision (precision_amount market_info) of
                    Inl e \<Rightarrow> (Inr (), hm, w')
                  | Inr amount_precision \<Rightarrow>
                     (Inr (),
                      hm\<lparr>hedge_strategies :=
                           AList.update strategy_id
                             (hedge_config\<lparr>hc_price_precision := price_precision,
                                            hc_amount_precision := amount_precision\<rparr>)
                             (hedge_strategies hm)\<rparr>,
                      w')))))"

text \<open>
  The loop of \<^verbatim>\<open>create_hedge_order\<close> over the hedge venues. The accumulator holds the
  list of placed order ids, the members of the group being built and the reverse
  lookup table.
\<close>

fun create_hedge_loop ::
  "'w venue_api \<Rightarrow> string \<Rightarrow> string \<Rightarrow> decimal \<Rightarrow> decimal \<Rightarrow> string \<Rightarrow> timestamp
     \<Rightarrow> exchange list
     \<Rightarrow> string list \<times> (string \<times> hedge_member) list \<times> (string \<times> string) list \<times> 'w
     \<Rightarrow> string list \<times> (string \<times> hedge_member) list \<times> (string \<times> string) list \<times> 'w" where
  "create_hedge_loop api trading_pair hedge_side rounded_amount rounded_price
       original_order_id now [] acc = acc"
| "create_hedge_loop api trading_pair hedge_side rounded_amount rounded_price
       original_order_id now (exchange # rest) (ids, members, rl, w) =
     (case create_limit_order api w exchange trading_pair hedge_side rounded_amount rounded_price of
        (Raised, w') \<Rightarrow>
          create_hedge_loop api trading_pair hedge_side rounded_amount rounded_price
            original_order_id now rest (ids, members, rl, w')
      | (Returned order_id, w') \<Rightarrow>
          if order_id \<noteq> [] then
            create_hedge_loop api trading_pair hedge_side rounded_amount rounded_price
              original_order_id now rest
              (ids @ [order_id],
               AList.update order_id
                 \<lparr>m_exchange_name = ex_name exchange, m_exchange_id = ex_id exchange,
                  m_status = ''open'', m_timestamp = now,
                  m_filled_time = None, m_cancel_time = None\<rparr> members,
               AList.update order_id original_order_id rl,
               w')
          else
            create_hedge_loop api trading_pair hedge_side rounded_amount rounded_price
              original_order_id now rest (ids, members, rl, w'))"

definition create_hedge_order ::
  "'w venue_api \<Rightarrow> string \<Rightarrow> string \<Rightarrow> decimal \<Rightarrow> decimal \<Rightarrow> string \<Rightarrow> string option
     \<Rightarrow> timestamp \<Rightarrow> hedge_manager \<times> 'w \<Rightarrow> (exn + string list) \<times> hedge_manager \<times> 'w" where
  "create_hedge_order api strategy_id side amount price level_id original_order_id now st =
     (case st of (hm, w) \<Rightarrow>
      case map_of (hedge_strategies hm) strategy_id of
        None \<Rightarrow> (Inr [], hm, w)
      | Some hedge_config \<Rightarrow>
         let trading_pair = hc_trading_pair hedge_config;
             hedge_exchanges = hc_exchanges hedge_config;
             hedge_side = (if side = ''buy'' then ''sell'' else ''buy'');
             (r, hm1, w1) =
               (if hedge_exchanges \<noteq> [] then
                  update_precision_if_needed api strategy_id (hd hedge_exchanges) trading_pair (hm, w)
                else (Inr (), hm, w))
         in case r of
              Inl e \<Rightarrow> (Inl e, hm1, w1)
            | Inr u \<Rightarrow>
               (case map_of (hedge_strategies hm1) strategy_id of
                  None \<Rightarrow> (Inl KeyError, hm1, w1)
                | Some hedge_config1 \<Rightarrow>
                   (case round_to_precision price (hc_price_precision hedge_config1)
                           ROUND_DOWN of
                      Inl e \<Rightarrow> (Inl e, hm1, w1)
                    | Inr rounded_price \<Rightarrow>
                   (case round_to_precision amount (hc_amount_precision hedge_config1)
                           ROUND_DOWN of
                      Inl e \<Rightarrow> (Inl e, hm1, w1)
                    | Inr rounded_amount \<Rightarrow>
                   let (oid, w2) =
                         (if truthy original_order_id then (the original_order_id, w1)
                          else (case uuid4 api w1 of (u, w') \<Rightarrow> (''primary_'' @ u, w')));
                       (ids, members, rl, w3) =
                         create_hedge_loop api trading_pair hedge_side rounded_amount rounded_price
                           oid now hedge_exchanges ([], [], reverse_lookup hm1, w2);
                       hm2 = hm1\<lparr>reverse_lookup := rl\<rparr>
                   in if ids \<noteq> [] then
                        (Inr ids,
                         hm2\<lparr>hedge_orders :=
                               AList.update oid
                                 \<lparr>g_strategy_id = strategy_id, g_level_id = level_id,
                                  g_side = hedge_side, g_amount = rounded_amount,
                                  g_price = rounded_price, g_status = ''open'',
                                  g_orders = members\<rparr>
                                 (hedge_orders hm2)\<rparr>,
                         w3)
                      else (Inr ids, hm2, w3)))))"

text \<open>
  The loop of \<^verbatim>\<open>cancel_hedge_orders\<close> over the members of a group. The member
  dictionaries are changed in place, so the loop returns the members in the same order.
\<close>

fun cancel_members ::
  "'w venue_api \<Rightarrow> exchange_manager \<Rightarrow> string \<Rightarrow> timestamp
     \<Rightarrow> (string \<times> hedge_member) list \<Rightarrow> 'w \<Rightarrow> (string \<times> hedge_member) list \<times> 'w" where
  "cancel_members api em trading_pair now [] w = ([], w)"
| "cancel_members api em trading_pair now ((order_id, order_data) # rest) w =
     (if m_status order_data = ''open'' then
        (case get_exchange_by_name em (m_exchange_name order_data) of
           None \<Rightarrow>
             (case cancel_members api em trading_pair now rest w of
                (rest', w') \<Rightarrow> ((order_id, order_data) # rest', w'))
         | Some exchange \<Rightarrow>
             (case cancel_order api w exchange order_id trading_pair of
                (Raised, w1) \<Rightarrow>
                  (case cancel_members api em trading_pair now rest w1 of
                     (rest', w') \<Rightarrow> ((order_id, order_data) # rest', w'))
              | (Returned b, w1) \<Rightarrow>
                  (case cancel_members api em trading_pair now rest w1 of
                     (rest', w') \<Rightarrow>
                       ((order_id,
                         order_data\<lparr>m_status := ''canceled'', m_cancel_time := Some now\<rparr>)
                        # rest', w'))))
      else
        (case cancel_members api em trading_pair now rest w of
           (rest', w') \<Rightarrow> ((order_id, order_data) # rest', w')))"

definition cancel_hedge_orders ::
  "'w venue_api \<Rightarrow> string \<Rightarrow> timestamp \<Rightarrow> hedge_manager \<times> 'w
     \<Rightarrow> (exn + unit) \<times> hedge_manager \<times> 'w" where
  "cancel_hedge_orders api original_order_id now st =
     (case st of (hm, w) \<Rightarrow>
      case map_of (hedge_orders hm) original_order_id of
        None \<Rightarrow> (Inr (), hm, w)
      | Some hedge_order_info \<Rightarrow>
         (case map_of (hedge_strategies hm) (g_strategy_id hedge_order_info) of
            None \<Rightarrow> (Inl KeyError, hm, w)
          | Some hedge_config \<Rightarrow>
             (case cancel_members api (hm_exchange_manager hm) (hc_trading_pair hedge_config) now
                     (g_orders hedge_order_info) w of
                (members, w') \<Rightarrow>
                  (Inr (),
                   hm\<lparr>hedge_orders :=
                        AList.update original_order_id
                          (hedge_order_info\<lparr>g_orders := members, g_status := ''canceled''\<rparr>)
                          (hedge_orders hm)\<rparr>,
                   w'))))"

text \<open>
  \<^verbatim>\<open>HedgeManager.update\<close>. The inner loop polls the members of one group; the outer loop
  visits, in dictionary order, the groups that belong to the strategy and are open.
  The source first collects these groups and then mutates them in place; no step of
  the loop changes the strategy id or the status of a group, so the test is made
  when the group is visited.
\<close>

fun update_members ::
  "'w venue_api \<Rightarrow> exchange_manager \<Rightarrow> string \<Rightarrow> timestamp
     \<Rightarrow> (string \<times> hedge_member) list \<Rightarrow> 'w \<Rightarrow> (string \<times> hedge_member) list \<times> 'w" where
  "update_members api em trading_pair now [] w = ([], w)"
| "update_members api em trading_pair now ((hedge_order_id, hedge_order_data) # rest) w =
     (if m_status hedge_order_data \<noteq> ''open'' then
        (case update_members api em trading_pair now rest w of
           (rest', w') \<Rightarrow> ((hedge_order_id, hedge_order_data) # rest', w'))
      else
        (case get_exchange_by_name em (m_exchange_name hedge_order_data) of
           None \<Rightarrow>
             (case update_members api em trading_pair now rest w of
                (rest', w') \<Rightarrow> ((hedge_order_id, hedge_order_data) # rest', w'))
         | Some exchange \<Rightarrow>
             (case fetch_order api w exchange hedge_order_id trading_pair of
                (Raised, w1) \<Rightarrow>
                  (case update_members api em trading_pair now rest w1 of
                     (rest', w') \<Rightarrow> ((hedge_order_id, hedge_order_data) # rest', w'))
              | (Returned order_status, w1) \<Rightarrow>
                  (case update_members api em trading_pair now rest w1 of
                     (rest', w') \<Rightarrow>
                       ((hedge_order_id,
                         if order_status = ''closed'' then
                           hedge_order_data\<lparr>m_status := ''filled'', m_filled_time := Some now\<rparr>
                         else if order_status = ''canceled'' then
                           hedge_order_data\<lparr>m_status := ''canceled'', m_cancel_time := Some now\<rparr>
                         else hedge_order_data)
                        # rest', w')))))"

fun update_groups ::
  "'w venue_api \<Rightarrow> exchange_manager \<Rightarrow> string \<Rightarrow> string \<Rightarrow> timestamp
     \<Rightarrow> (string \<times> hedge_group) list \<Rightarrow> 'w \<Rightarrow> (string \<times> hedge_group) list \<times> 'w" where
  "update_groups api em strategy_id trading_pair now [] w = ([], w)"
| "update_groups api em strategy_id trading_pair now ((original_order_id, order_info) # rest) w =
     (if g_strategy_id order_info = strategy_id \<and> g_status order_info = ''open'' then
        (case update_members api em trading_pair now (g_orders order_info) w of
           (members, w1) \<Rightarrow>
             (case update_groups api em strategy_id trading_pair now rest w1 of
                (rest', w') \<Rightarrow>
                  ((original_order_id, order_info\<lparr>g_orders := members\<rparr>) # rest', w')))
      else
        (case update_groups api em strategy_id trading_pair now rest w of
           (rest', w') \<Rightarrow> ((original_order_id, order_info) # rest', w')))"

definition hedge_update ::
  "'w venue_api \<Rightarrow> string \<Rightarrow> timestamp \<Rightarrow> hedge_manager \<times> 'w \<Rightarrow> hedge_manager \<times> 'w" where
  "hedge_update api strategy_id now st =
     (case st of (hm, w) \<Rightarrow>
      case map_of (hedge_strategies hm) strategy_id of
        None \<Rightarrow> (hm, w)
      | Some hedge_config \<Rightarrow>
         (case update_groups api (hm_exchange_manager hm) strategy_id
                 (hc_trading_pair hedge_config) now (hedge_orders hm) w of
            (groups, w') \<Rightarrow> (hm\<lparr>hedge_orders := groups\<rparr>, w')))"

text \<open>\<^verbatim>\<open>HedgeManager.handle_order_filled\<close>.\<close>

definition hedge_handle_order_filled :: "string \<Rightarrow> hedge_manager \<Rightarrow> hedge_manager" where
  "hedge_handle_order_filled original_order_id hm =
     (case map_of (hedge_orders hm) original_order_id of
        None \<Rightarrow> hm
      | Some hedge_order_info \<Rightarrow>
         let all_filled = list_all (\<lambda>(order_id, order_data). m_status order_data = ''filled'')
                            (g_orders hedge_order_info)
         in if all_filled then
              hm\<lparr>hedge_orders :=
                   AList.update original_order_id (hedge_order_info\<lparr>g_status := ''filled''\<rparr>)
                     (hedge_orders hm)\<rparr>
            else hm)"

section \<open>Grid strategy (girdbot/core/grid_strategy.py)\<close>

record grid_level =
  l_id :: string
  l_price :: decimal
  l_amount :: decimal
  l_buy_order_id :: "string option"
  l_sell_order_id :: "string option"
  l_status :: string
  l_last_update :: timestamp

text \<open>\<^verbatim>\<open>GridLevel(id, price, amount)\<close>: a new level is \<^verbatim>\<open>READY\<close> and has no orders.\<close>

definition GridLevel :: "string \<Rightarrow> decimal \<Rightarrow> decimal \<Rightarrow> timestamp \<Rightarrow> grid_level" where
  "GridLevel ident price amount now =
     \<lparr>l_id = ident, l_price = price, l_amount = amount, l_buy_order_id = None,
      l_sell_order_id = None, l_status = ''READY'', l_last_update = now\<rparr>"

text \<open>A record of the trade recorder (girdbot/storage/trade\_recorder.py).\<close>

record trade =
  t_trade_id :: string
  t_strategy_id :: string
  t_order_id :: string
  t_trading_pair :: string
  t_side :: string
  t_price :: decimal
  t_amount :: decimal
  t_timestamp :: timestamp

text \<open>The messages the strategy logs, one constructor for each call of the logger.\<close>

datatype event =
    PrecisionUnavailable
  | BuyAttempt decimal decimal
  | BuyCreated string
  | BuyFailed
  | SellAttempt decimal decimal
  | SellCreated string
  | SellFailed
  | OrderNotFound string
  | LevelNotFound string
  | OrderFilled string string decimal decimal
  | LevelsCreated nat

text \<open>
  The strategy object, with the objects it owns or shares: its order manager, the hedge
  manager, the list of this strategy's trades in the trade recorder, the log, and the
  outside world. A level is mutated through a reference to the object in
  \<^verbatim>\<open>grid_levels_data\<close>; the model refers to it by its position in that list.
\<close>

record 'w grid_strategy =
  strategy_id :: string
  trading_pair :: string
  start_price :: decimal
  end_price :: decimal
  grid_levels :: int
  total_investment :: decimal
  enable_hedge :: bool
  primary_exchange :: exchange
  hedge_manager :: "hedge_manager option"
  grid_levels_data :: "grid_level list"
  order_manager :: order_manager
  completed_trades :: int
  trade_recorder :: "trade list"
  logged :: "event list"
  world :: 'w

text \<open>Decimal digits of a natural number and of an integer, as \<^verbatim>\<open>str\<close> prints them.\<close>

fun str_nat :: "nat \<Rightarrow> string" where
  "str_nat n =
     (if n < 10 then [char_of (48 + n)]
      else str_nat (n div 10) @ [char_of (48 + n mod 10)])"

definition str_int :: "int \<Rightarrow> string" where
  "str_int i = (if i < 0 then ''-'' @ str_nat (nat (- i)) else str_nat (nat i))"

definition get_exchange_precision ::
  "'w venue_api \<Rightarrow> 'w grid_strategy \<Rightarrow> (decimal \<times> decimal) \<times> 'w grid_strategy" where
  "get_exchange_precision api s =
     (case load_market api (world s) (primary_exchange s) (trading_pair s) of
        (Raised, w') \<Rightarrow>
          ((1 / 100000000, 1 / 100000000),
           s\<lparr>logged := logged s @ [PrecisionUnavailable], world := w'\<rparr>)
      | (Returned market, w') \<Rightarrow>
          (case (precision_price market, precision_amount market) of
             (Some price_precision_val, Some amount_precision_val) \<Rightarrow>
               ((to_decimal price_precision_val, to_decimal amount_precision_val),
                s\<lparr>world := w'\<rparr>)
           | _ \<Rightarrow>
               ((1 / 100000000, 1 / 100000000),
                s\<lparr>logged := logged s @ [PrecisionUnavailable], world := w'\<rparr>)))"

text \<open>
  \<^verbatim>\<open>_adjust_to_precision\<close>. Both arguments are decimals by their type, so the branch
  that raises \<^verbatim>\<open>TypeError\<close> for another type has no counterpart.
\<close>

definition adjust_to_precision :: "decimal \<Rightarrow> decimal \<Rightarrow> exn + decimal" where
  "adjust_to_precision v precision =
     (if precision \<le> 0 then Inr v
      else and_then (dec_div v precision) (\<lambda>q.
           and_then (quantize_1 ROUND_DOWN q) (\<lambda>t. dec_mul t precision)))"

text \<open>
  The loop of \<^verbatim>\<open>calculate_grid_levels\<close>: each pass appends one level to
  \<^verbatim>\<open>grid_levels_data\<close>. An exception leaves the loop with the levels appended so far.
\<close>

fun calculate_grid_levels_loop ::
  "timestamp \<Rightarrow> decimal \<Rightarrow> decimal \<Rightarrow> decimal \<Rightarrow> nat list \<Rightarrow> 'w grid_strategy
     \<Rightarrow> (exn + unit) \<times> 'w grid_strategy" where
  "calculate_grid_levels_loop now price_step amount_per_grid price_precision [] s = (Inr (), s)"
| "calculate_grid_levels_loop now price_step amount_per_grid price_precision (i # rest) s =
     (case and_then (dec_mul price_step (of_nat i)) (\<lambda>m.
           and_then (dec_add (start_price s) m) (\<lambda>price.
           adjust_to_precision price price_precision)) of
        Inl e \<Rightarrow> (Inl e, s)
      | Inr price \<Rightarrow>
          calculate_grid_levels_loop now price_step amount_per_grid price_precision rest
            (s\<lparr>grid_levels_data := grid_levels_data s
                  @ [GridLevel (''level_'' @ str_nat i) price amount_per_grid now]\<rparr>))"

definition calculate_grid_levels ::
  "'w venue_api \<Rightarrow> timestamp \<Rightarrow> 'w grid_strategy \<Rightarrow> (exn + unit) \<times> 'w grid_strategy" where
  "calculate_grid_levels api now s =
     (case get_exchange_precision api s of
        ((price_precision, amount_precision), s1) \<Rightarrow>
          (case (if grid_levels s1 > 1
                 then and_then (dec_sub (end_price s1) (start_price s1)) (\<lambda>price_range.
                        dec_div price_range (of_int (grid_levels s1 - 1)))
                 else Inr 0) of
             Inl e \<Rightarrow> (Inl e, s1)
           | Inr price_step \<Rightarrow>
               (case dec_div (total_investment s1) (of_int (grid_levels s1)) of
                  Inl e \<Rightarrow> (Inl e, s1)
                | Inr amount_per_grid \<Rightarrow>
                    (case calculate_grid_levels_loop now price_step amount_per_grid
                            price_precision [0 ..< nat (grid_levels s1)]
                            (s1\<lparr>grid_levels_data := []\<rparr>) of
                       (Inl e, s2) \<Rightarrow> (Inl e, s2)
                     | (Inr u, s2) \<Rightarrow>
                         (Inr (),
                          s2\<lparr>logged := logged s2
                                @ [LevelsCreated (length (grid_levels_data s2))]\<rparr>)))))"

text \<open>
  The body of the \<^verbatim>\<open>try\<close> block of \<^verbatim>\<open>place_buy_order\<close>. It returns the order id, or the
  exception that left the block together with the state reached by then: the decimal
  arithmetic may raise (a price that rounds to zero makes the division raise), the
  venue may refuse the order, and the hedge manager may raise.
\<close>

definition place_buy_order_try ::
  "'w venue_api \<Rightarrow> timestamp \<Rightarrow> nat \<Rightarrow> 'w grid_strategy \<Rightarrow> (exn + string) \<times> 'w grid_strategy" where
  "place_buy_order_try api now i s =
     (case get_exchange_precision api s of
        ((price_precision, amount_precision), s1) \<Rightarrow>
          let level = grid_levels_data s1 ! i
          in case and_then (adjust_to_precision (l_price level) price_precision) (\<lambda>price.
                  and_then (dec_div (l_amount level) price) (\<lambda>quote.
                  and_then (adjust_to_precision quote amount_precision) (\<lambda>base_amount.
                  Inr (price, base_amount)))) of
               Inl e \<Rightarrow> (Inl e, s1)
             | Inr (price, base_amount) \<Rightarrow>
               let s2 = s1\<lparr>logged := logged s1 @ [BuyAttempt price base_amount]\<rparr>
               in case create_limit_order api (world s2) (primary_exchange s2) (trading_pair s2)
                         ''buy'' base_amount price of
                    (Raised, w') \<Rightarrow> (Inl ExchangeError, s2\<lparr>world := w'\<rparr>)
                  | (Returned order_id, w') \<Rightarrow>
                      let s3 = s2\<lparr>world := w',
                                  grid_levels_data := (grid_levels_data s2)
                                    [i := level\<lparr>l_buy_order_id := Some order_id,
                                                l_status := ''BUYING'',
                                                l_last_update := now\<rparr>]\<rparr>;
                          s4 = s3\<lparr>order_manager :=
                                    snd (add_order (order_manager s3) order_id
                                      \<lparr>o_level_id = l_id level, o_price = l_price level,
                                       o_amount = base_amount, o_side = ''buy'',
                                       o_status = ''open'', o_timestamp = now,
                                       o_filled_time = None, o_cancel_time = None\<rparr>)\<rparr>
                      in if enable_hedge s4 \<and> hedge_manager s4 \<noteq> None then
                           (case create_hedge_order api (strategy_id s4) ''sell'' base_amount
                                   (l_price level) (l_id level) None now
                                   (the (hedge_manager s4), world s4) of
                              (Inl e, hm', w'') \<Rightarrow>
                                (Inl e, s4\<lparr>hedge_manager := Some hm', world := w''\<rparr>)
                            | (Inr ids, hm', w'') \<Rightarrow>
                                (Inr order_id,
                                 s4\<lparr>hedge_manager := Some hm', world := w'',
                                    logged := logged s4 @ [BuyCreated order_id]\<rparr>))
                         else (Inr order_id, s4\<lparr>logged := logged s4 @ [BuyCreated order_id]\<rparr>))"

text \<open>
  \<^verbatim>\<open>place_buy_order\<close>: the \<^verbatim>\<open>except Exception\<close> clause logs the failure and returns
  \<^verbatim>\<open>None\<close>. The result is a sum like that of every operation that could raise, so
  that a caller's handling of an exception is visible.
\<close>

definition place_buy_order ::
  "'w venue_api \<Rightarrow> timestamp \<Rightarrow> nat \<Rightarrow> 'w grid_strategy
     \<Rightarrow> (exn + string option) \<times> 'w grid_strategy" where
  "place_buy_order api now i s =
     (case place_buy_order_try api now i s of
        (Inl e, s') \<Rightarrow> (Inr None, s'\<lparr>logged := logged s' @ [BuyFailed]\<rparr>)
      | (Inr order_id, s') \<Rightarrow> (Inr (Some order_id), s'))"

definition place_sell_order_try ::
  "'w venue_api \<Rightarrow> timestamp \<Rightarrow> nat \<Rightarrow> 'w grid_strategy \<Rightarrow> (exn + string) \<times> 'w grid_strategy" where
  "place_sell_order_try api now i s =
     (case get_exchange_precision api s of
        ((price_precision, amount_precision), s1) \<Rightarrow>
          let level = grid_levels_data s1 ! i
          in case and_then (adjust_to_precision (l_price level) price_precision) (\<lambda>price.
                  and_then (dec_div (l_amount level) price) (\<lambda>quote.
                  and_then (adjust_to_precision quote amount_precision) (\<lambda>base_amount.
                  Inr (price, base_amount)))) of
               Inl e \<Rightarrow> (Inl e, s1)
             | Inr (price, base_amount) \<Rightarrow>
               let s2 = s1\<lparr>logged := logged s1 @ [SellAttempt price base_amount]\<rparr>
               in case create_limit_order api (world s2) (primary_exchange s2) (trading_pair s2)
                         ''sell'' base_amount price of
                    (Raised, w') \<Rightarrow> (Inl ExchangeError, s2\<lparr>world := w'\<rparr>)
                  | (Returned order_id, w') \<Rightarrow>
                      let s3 = s2\<lparr>world := w',
                                  grid_levels_data := (grid_levels_data s2)
                                    [i := level\<lparr>l_sell_order_id := Some order_id,
                                                l_status := ''SELLING'',
                                                l_last_update := now\<rparr>]\<rparr>;
                          s4 = s3\<lparr>order_manager :=
                                    snd (add_order (order_manager s3) order_id
                                      \<lparr>o_level_id = l_id level, o_price = l_price level,
                                       o_amount = base_amount, o_side = ''sell'',
                                       o_status = ''open'', o_timestamp = now,
                                       o_filled_time = None, o_cancel_time = None\<rparr>)\<rparr>
                      in if enable_hedge s4 \<and> hedge_manager s4 \<noteq> None then
                           (case create_hedge_order api (strategy_id s4) ''buy'' base_amount
                                   (l_price level) (l_id level) None now
                                   (the (hedge_manager s4), world s4) of
                              (Inl e, hm', w'') \<Rightarrow>
                                (Inl e, s4\<lparr>hedge_manager := Some hm', world := w''\<rparr>)
                            | (Inr ids, hm', w'') \<Rightarrow>
                                (Inr order_id,
                                 s4\<lparr>hedge_manager := Some hm', world := w'',
                                    logged := logged s4 @ [SellCreated order_id]\<rparr>))
                         else (Inr order_id, s4\<lparr>logged := logged s4 @ [SellCreated order_id]\<rparr>))"

definition place_sell_order ::
  "'w venue_api \<Rightarrow> timestamp \<Rightarrow> nat \<Rightarrow> 'w grid_strategy
     \<Rightarrow> (exn + string option) \<times> 'w grid_strategy" where
  "place_sell_order api now i s =
     (case place_sell_order_try api now i s of
        (Inl e, s') \<Rightarrow> (Inr None, s'\<lparr>logged := logged s' @ [SellFailed]\<rparr>)
      | (Inr order_id, s') \<Rightarrow> (Inr (Some order_id), s'))"

text \<open>
  One pass of the loop of \<^verbatim>\<open>update_grid_orders\<close>, for the level at position \<open>i\<close>, and
  the loop itself. An exception that left a placement would leave the loop too.
\<close>

definition update_level ::
  "'w venue_api \<Rightarrow> decimal \<Rightarrow> timestamp \<Rightarrow> nat \<Rightarrow> 'w grid_strategy
     \<Rightarrow> (exn + unit) \<times> 'w grid_strategy" where
  "update_level api current_price now i s =
     (let level = grid_levels_data s ! i in
      if l_status level = ''READY'' then
        (if current_price < l_price level then
           (case place_buy_order api now i s of
              (Inl e, s') \<Rightarrow> (Inl e, s') | (Inr r, s') \<Rightarrow> (Inr (), s'))
         else if current_price > l_price level then
           (case place_sell_order api now i s of
              (Inl e, s') \<Rightarrow> (Inl e, s') | (Inr r, s') \<Rightarrow> (Inr (), s'))
         else (Inr (), s))
      else if l_status level = ''BOUGHT'' \<and> \<not> truthy (l_sell_order_id level) then
        (case place_sell_order api now i s of
           (Inl e, s') \<Rightarrow> (Inl e, s') | (Inr r, s') \<Rightarrow> (Inr (), s'))
      else if l_status level = ''SOLD'' \<and> \<not> truthy (l_buy_order_id level) then
        (case place_buy_order api now i s of
           (Inl e, s') \<Rightarrow> (Inl e, s') | (Inr r, s') \<Rightarrow> (Inr (), s'))
      else (Inr (), s))"

fun update_grid_orders_loop ::
  "'w venue_api \<Rightarrow> decimal \<Rightarrow> timestamp \<Rightarrow> nat list \<Rightarrow> 'w grid_strategy
     \<Rightarrow> (exn + unit) \<times> 'w grid_strategy" where
  "update_grid_orders_loop api current_price now [] s = (Inr (), s)"
| "update_grid_orders_loop api current_price now (i # rest) s =
     (case update_level api current_price now i s of
        (Inl e, s') \<Rightarrow> (Inl e, s')
      | (Inr u, s') \<Rightarrow> update_grid_orders_loop api current_price now rest s')"

definition update_grid_orders ::
  "'w venue_api \<Rightarrow> decimal \<Rightarrow> timestamp \<Rightarrow> 'w grid_strategy
     \<Rightarrow> (exn + unit) \<times> 'w grid_strategy" where
  "update_grid_orders api current_price now s =
     update_grid_orders_loop api current_price now [0 ..< length (grid_levels_data s)] s"

text \<open>
  \<^verbatim>\<open>TradeRecorder.record_trade\<close>, on the list of this strategy's trades. The trade id
  is \<^verbatim>\<open>f"{strategy_id}_{int(timestamp)}_{order_id[-8:]}"\<close>.
\<close>

definition record_trade ::
  "string \<Rightarrow> string \<Rightarrow> string \<Rightarrow> string \<Rightarrow> decimal \<Rightarrow> decimal \<Rightarrow> timestamp
     \<Rightarrow> trade list \<Rightarrow> trade list" where
  "record_trade sid order_id pair side price amount ts trades =
     trades @
     [\<lparr>t_trade_id =
         sid @ ''_'' @ str_int (if 0 \<le> ts then \<lfloor>ts\<rfloor> else \<lceil>ts\<rceil>) @ ''_''
           @ drop (length order_id - 8) order_id,
       t_strategy_id = sid, t_order_id = order_id, t_trading_pair = pair, t_side = side,
       t_price = price, t_amount = amount, t_timestamp = ts\<rparr>]"

text \<open>\<^verbatim>\<open>next((l for l in self.grid_levels_data if l.id == level_id), None)\<close>, as a position.\<close>

fun find_level :: "grid_level list \<Rightarrow> string \<Rightarrow> nat option" where
  "find_level [] level_id = None"
| "find_level (l # ls) level_id =
     (if l_id l = level_id then Some 0
      else (case find_level ls level_id of None \<Rightarrow> None | Some i \<Rightarrow> Some (Suc i)))"

text \<open>
  \<^verbatim>\<open>GridStrategy.handle_order_filled\<close>. The argument \<^verbatim>\<open>order_info\<close> of the source is not
  read by it and is left out.
\<close>

definition handle_order_filled ::
  "'w venue_api \<Rightarrow> timestamp \<Rightarrow> string \<Rightarrow> 'w grid_strategy
     \<Rightarrow> (exn + unit) \<times> 'w grid_strategy" where
  "handle_order_filled api now order_id s =
     (case get_order (order_manager s) order_id of
        None \<Rightarrow> (Inr (), s\<lparr>logged := logged s @ [OrderNotFound order_id]\<rparr>)
      | Some order_data \<Rightarrow>
          let level_id = o_level_id order_data;
              side = o_side order_data;
              price = o_price order_data;
              amount = o_amount order_data;
              s1 = s\<lparr>order_manager :=
                       snd (update_order (order_manager s) order_id
                              (order_data\<lparr>o_status := ''filled'', o_filled_time := Some now\<rparr>))\<rparr>
          in case find_level (grid_levels_data s1) level_id of
               None \<Rightarrow> (Inr (), s1\<lparr>logged := logged s1 @ [LevelNotFound level_id]\<rparr>)
             | Some i \<Rightarrow>
                 let level = grid_levels_data s1 ! i;
                     (r, s3) =
                       (if side = ''buy'' then
                          place_sell_order api now i
                            (s1\<lparr>grid_levels_data := (grid_levels_data s1)
                                  [i := level\<lparr>l_status := ''BOUGHT'', l_buy_order_id := None\<rparr>]\<rparr>)
                        else
                          place_buy_order api now i
                            (s1\<lparr>grid_levels_data := (grid_levels_data s1)
                                  [i := level\<lparr>l_status := ''SOLD'', l_sell_order_id := None\<rparr>]\<rparr>))
                 in case r of
                      Inl e \<Rightarrow> (Inl e, s3)
                    | Inr placed \<Rightarrow>
                        (Inr (),
                         s3\<lparr>trade_recorder :=
                               record_trade (strategy_id s3) order_id (trading_pair s3) side
                                 price amount now (trade_recorder s3),
                            completed_trades := completed_trades s3 + 1,
                            logged := logged s3 @ [OrderFilled order_id side amount price]\<rparr>))"

section \<open>Example values\<close>

definition order_a :: order where
  "order_a = \<lparr>o_level_id = ''level_0'', o_price = 100, o_amount = 2, o_side = ''buy'',
      o_status = ''open'', o_timestamp = 0, o_filled_time = None, o_cancel_time = None\<rparr>"

definition order_b :: order where
  "order_b = \<lparr>o_level_id = ''level_1'', o_price = 125, o_amount = 1, o_side = ''sell'',
      o_status = ''filled'', o_timestamp = 0, o_filled_time = None, o_cancel_time = None\<rparr>"

definition om_ab :: order_manager where
  "om_ab = \<lparr>orders = [(''a'', order_a), (''b'', order_b)]\<rparr>"

section \<open>Decimal arithmetic\<close>

lemma ndigits_bounds:
  "0 < n \<Longrightarrow> 10 ^ (ndigits n - 1) \<le> n \<and> n < 10 ^ ndigits n"
proof (induction n rule: ndigits.induct)
  case (1 n)
  show ?case
  proof (cases "n < 10")
    case True
    then have "ndigits n = 1" by (subst ndigits.simps) simp
    then show ?thesis using True 1(2) by simp
  next
    case False
    then have pos: "0 < n div 10" by simp
    let ?m = "ndigits (n div 10)"
    from 1(1)[OF False pos]
    have IH: "10 ^ (?m - 1) \<le> n div 10" "n div 10 < 10 ^ ?m" by simp_all
    have nd: "ndigits n = Suc ?m" using False by (subst ndigits.simps) simp
    have m1: "1 \<le> ?m" by (subst ndigits.simps) simp
    then have split: "(10::int) ^ ?m = 10 * 10 ^ (?m - 1)"
      by (cases ?m) simp_all
    have "(10::int) ^ ?m \<le> 10 * (n div 10)" using IH(1) split by simp
    also have "\<dots> \<le> n" by simp
    finally have lo: "10 ^ (ndigits n - 1) \<le> n" using nd by simp
    have "n < 10 * (n div 10 + 1)" by simp
    also have "\<dots> \<le> 10 * 10 ^ ?m" using IH(2) by simp
    finally have hi: "n < 10 ^ ndigits n" using nd by simp
    show ?thesis using lo hi by simp
  qed
qed

lemma powi_diff_nat: "(10::rat) powi (int a - int b) = 10 ^ a / 10 ^ b"
  by (simp add: power_int_diff)

lemma adjusted_spec:
  assumes "x \<noteq> 0"
  shows "10 powi adjusted x \<le> \<bar>x\<bar> \<and> \<bar>x\<bar> < 10 powi (adjusted x + 1)"
proof -
  obtain n d where q: "quotient_of \<bar>x\<bar> = (n, d)" by (cases "quotient_of \<bar>x\<bar>")
  have d: "0 < d" using quotient_of_denom_pos[OF q] .
  have x: "\<bar>x\<bar> = of_int n / of_int d" using quotient_of_div[OF q] .
  have "0 < \<bar>x\<bar>" using assms by simp
  then have n: "0 < n" using d x by (simp add: zero_less_divide_iff)
  let ?ln = "ndigits n" and ?ld = "ndigits d"
  define k where "k = int ?ln - int ?ld"
  have ln1: "1 \<le> ?ln" by (subst ndigits.simps) simp
  have ld1: "1 \<le> ?ld" by (subst ndigits.simps) simp
  have "of_int ((10::int) ^ (?ln - 1)) \<le> (of_int n :: rat)"
    using ndigits_bounds[OF n] by (simp only: of_int_le_iff)
  then have n_lo: "(10::rat) ^ (?ln - 1) \<le> of_int n" by simp
  have "(of_int n :: rat) < of_int ((10::int) ^ ?ln)"
    using ndigits_bounds[OF n] by (simp only: of_int_less_iff)
  then have n_hi: "of_int n < (10::rat) ^ ?ln" by simp
  have "of_int ((10::int) ^ (?ld - 1)) \<le> (of_int d :: rat)"
    using ndigits_bounds[OF d] by (simp only: of_int_le_iff)
  then have d_lo: "(10::rat) ^ (?ld - 1) \<le> of_int d" by simp
  have "(of_int d :: rat) < of_int ((10::int) ^ ?ld)"
    using ndigits_bounds[OF d] by (simp only: of_int_less_iff)
  then have d_hi: "of_int d < (10::rat) ^ ?ld" by simp
  have npos: "(0::rat) < of_int n" and dpos: "(0::rat) < of_int d" using n d by simp_all
  have "k + 1 = int ?ln - int (?ld - 1)" using ld1 by (simp add: k_def)
  then have "(10::rat) powi (k + 1) = 10 ^ ?ln / 10 ^ (?ld - 1)"
    by (simp only: powi_diff_nat)
  moreover have "of_int n / of_int d < (10::rat) ^ ?ln / 10 ^ (?ld - 1)"
    using npos n_hi d_lo by (intro frac_less) simp_all
  ultimately have up: "\<bar>x\<bar> < 10 powi (k + 1)" using x by simp
  have "k - 1 = int (?ln - 1) - int ?ld" using ln1 by (simp add: k_def)
  then have "(10::rat) powi (k - 1) = 10 ^ (?ln - 1) / 10 ^ ?ld"
    by (simp only: powi_diff_nat)
  moreover have "(10::rat) ^ (?ln - 1) / 10 ^ ?ld < of_int n / of_int d"
    using n_lo dpos d_hi by (intro frac_less2) simp_all
  ultimately have lo: "10 powi (k - 1) < \<bar>x\<bar>" using x by simp
  have adj: "adjusted x = (if 10 powi k \<le> \<bar>x\<bar> then k else k - 1)"
    by (simp add: adjusted_def q k_def Let_def)
  show ?thesis
  proof (cases "10 powi k \<le> \<bar>x\<bar>")
    case True
    then show ?thesis using up adj by simp
  next
    case False
    then show ?thesis using lo adj by simp
  qed
qed

lemma powi10_less_imp: "(10::rat) powi a < 10 powi b \<Longrightarrow> a < b"
proof (rule ccontr)
  assume h: "(10::rat) powi a < 10 powi b" and "\<not> a < b"
  then have "b \<le> a" by simp
  then have "(10::rat) powi b \<le> 10 powi a" by (intro power_int_increasing) simp_all
  with h show False by simp
qed



lemma representableI:
  assumes x: "x = of_int c * 10 powi e"
    and c: "\<bar>c\<bar> < 10 ^ prec"
    and e: "Etiny \<le> e"
    and top: "\<bar>x\<bar> < 10 powi (Emax + 1)"
  shows "representable x"
proof (cases "x = 0")
  case True
  then show ?thesis by (simp add: representable_def)
next
  case False
  let ?a = "adjusted x"
  have a: "10 powi ?a \<le> \<bar>x\<bar>" using adjusted_spec[OF False] by simp
  have pe: "(0::rat) < 10 powi e" by (simp add: zero_less_power_int)
  have "(of_int \<bar>c\<bar> :: rat) < of_int (10 ^ prec)" using c by (simp only: of_int_less_iff)
  then have "\<bar>of_int c :: rat\<bar> < 10 ^ prec" by simp
  then have "\<bar>of_int c :: rat\<bar> * 10 powi e < 10 ^ prec * 10 powi e"
    using pe by (simp only: mult_strict_right_mono)
  moreover have "\<bar>x\<bar> = \<bar>of_int c :: rat\<bar> * 10 powi e"
    using pe by (simp add: x abs_mult)
  moreover have "(10::rat) ^ prec * 10 powi e = 10 powi (int prec + e)"
    by (simp add: power_int_add)
  ultimately have "\<bar>x\<bar> < 10 powi (int prec + e)" by simp
  with a have "(10::rat) powi ?a < 10 powi (int prec + e)" by simp
  then have a1: "?a < int prec + e" by (rule powi10_less_imp)
  from a top have "(10::rat) powi ?a < 10 powi (Emax + 1)" by simp
  then have a2: "?a \<le> Emax" using powi10_less_imp by fastforce
  define em where "em = max (?a - int prec + 1) Etiny"
  have em: "em \<le> e" using a1 e by (simp add: em_def)
  have "x / 10 powi em = of_int c * (10 powi e / 10 powi em)" by (simp add: x)
  also have "10 powi e / 10 powi em = (10::rat) powi (e - em)"
    by (simp add: power_int_diff)
  also have "\<dots> = 10 ^ nat (e - em)" using em by (simp add: power_int_def)
  finally have "x / 10 powi em = of_int (c * 10 ^ nat (e - em))" by simp
  then have "of_int \<lfloor>x / 10 powi em\<rfloor> = x / 10 powi em" by (simp only: floor_of_int)
  then show ?thesis using a2 by (simp add: representable_def Let_def em_def)
qed

section \<open>Rounding\<close>










section \<open>Order tracking\<close>

lemma count_filter_distinct:
  "distinct (map fst xs) \<Longrightarrow>
   length (filter P (map snd xs)) = card {k. \<exists>d. map_of xs k = Some d \<and> P d}"
proof (induction xs)
  case Nil
  then show ?case by simp
next
  case (Cons x xs)
  obtain k v where x: "x = (k, v)" by (cases x)
  let ?S = "{k'. \<exists>d. map_of xs k' = Some d \<and> P d}"
  have fin: "finite ?S"
    by (rule finite_subset[of _ "dom (map_of xs)"]) (auto simp: finite_dom_map_of)
  have knone: "map_of xs k = None"
    using Cons.prems x by (simp add: map_of_eq_None_iff)
  then have notin: "k \<notin> ?S" by simp
  have IH: "length (filter P (map snd xs)) = card ?S"
    using Cons by simp
  show ?case
  proof (cases "P v")
    case True
    have "{k'. \<exists>d. map_of (x # xs) k' = Some d \<and> P d} = insert k ?S"
      using True x knone by auto
    then show ?thesis using True x IH fin notin by simp
  next
    case False
    have "{k'. \<exists>d. map_of (x # xs) k' = Some d \<and> P d} = ?S"
      using False x knone by auto
    then show ?thesis using False x IH by simp
  qed
qed

text \<open>The keys of the order dictionary stay distinct under every operation.\<close>

lemma order_manager_distinct:
  assumes "distinct (map fst (orders om))"
  shows "distinct (map fst (orders (snd (add_order om oid d))))"
    and "distinct (map fst (orders (snd (update_order om oid d))))"
    and "distinct (map fst (orders (snd (delete_order om oid))))"
  using assms
  by (simp_all add: add_order_def update_order_def delete_order_def distinct_update distinct_delete)

text \<open>
  C9. Adding an order under an id that is already present returns false and leaves the
  order manager as it was; updating an absent id returns false (and changes nothing);
  and the active-order count is the number of stored ids whose order has status
  \<open>open\<close> or \<open>partially_filled\<close>. The keys of a dictionary are distinct.
\<close>

theorem order_manager_contract:
  "(map_of (orders om) oid \<noteq> None \<longrightarrow> add_order om oid d = (False, om))
   \<and> (map_of (orders om) oid = None \<longrightarrow> update_order om oid d = (False, om))
   \<and> (distinct (map fst (orders om)) \<longrightarrow>
        count_active_orders om =
          card {k. \<exists>d. get_order om k = Some d
                     \<and> (o_status d = ''open'' \<or> o_status d = ''partially_filled'')})"
proof (intro conjI impI)
  assume "distinct (map fst (orders om))"
  from count_filter_distinct[OF this, of is_active]
  show "count_active_orders om =
          card {k. \<exists>d. get_order om k = Some d
                     \<and> (o_status d = ''open'' \<or> o_status d = ''partially_filled'')}"
    by (simp add: count_active_orders_def get_order_def is_active_def)
qed (simp_all add: add_order_def update_order_def has_key_def)

theorem order_manager_contract_witness:
  "map_of (orders om_ab) ''a'' \<noteq> None \<and> add_order om_ab ''a'' order_b = (False, om_ab)
   \<and> map_of (orders om_ab) ''c'' = None \<and> update_order om_ab ''c'' order_b = (False, om_ab)
   \<and> distinct (map fst (orders om_ab))
   \<and> card {k. \<exists>d. get_order om_ab k = Some d
                \<and> (o_status d = ''open'' \<or> o_status d = ''partially_filled'')} = 1"
proof -
  have a: "map_of (orders om_ab) ''a'' \<noteq> None" by (simp add: om_ab_def)
  have c: "map_of (orders om_ab) ''c'' = None" by (simp add: om_ab_def)
  have d: "distinct (map fst (orders om_ab))" by (simp add: om_ab_def)
  have n: "count_active_orders om_ab = 1"
    by (simp add: om_ab_def count_active_orders_def is_active_def order_a_def order_b_def)
  show ?thesis
    using a c d n order_manager_contract [of om_ab "''a''" order_b]
      order_manager_contract [of om_ab "''c''" order_b]
    by simp
qed

end
